theory Spec2Isabelle
  imports Main "HOL-Library.Word"
begin

section \<open>JavaScript strings\<close>

text \<open>
  A JavaScript string is a sequence of 16-bit code units. Literals of the source are
  written as HOL strings and lifted by \<open>js\<close>; every literal of the component is ASCII.
\<close>

type_synonym code_unit = "16 word"
type_synonym jsstring = "code_unit list"

definition js :: "string \<Rightarrow> jsstring" where
  "js s = map of_char s"

text \<open>
  \<^verbatim>\<open>String.prototype.trim\<close> strips, at both ends, the code units that ECMAScript
  calls WhiteSpace or LineTerminator: TAB, LF, VT, FF, CR, SP, NBSP, U+1680,
  U+2000..U+200A, U+2028, U+2029, U+202F, U+205F, U+3000 and U+FEFF.
\<close>

definition isWhiteSpace :: "code_unit \<Rightarrow> bool" where
  "isWhiteSpace c \<longleftrightarrow>
     c = 0x0009 \<or> c = 0x000A \<or> c = 0x000B \<or> c = 0x000C \<or> c = 0x000D \<or>
     c = 0x0020 \<or> c = 0x00A0 \<or> c = 0x1680 \<or> (0x2000 \<le> c \<and> c \<le> 0x200A) \<or>
     c = 0x2028 \<or> c = 0x2029 \<or> c = 0x202F \<or> c = 0x205F \<or> c = 0x3000 \<or>
     c = 0xFEFF"

definition trim :: "jsstring \<Rightarrow> jsstring" where
  "trim s = rev (dropWhile isWhiteSpace (rev (dropWhile isWhiteSpace s)))"

text \<open>A text is blank when it is empty or made of white space only.\<close>

definition blank :: "jsstring \<Rightarrow> bool" where
  "blank s = list_all isWhiteSpace s"

text \<open>
  \<open>splitAtMatch pat s\<close> finds the first occurrence of \<open>pat\<close> in \<open>s\<close> (what
  \<^verbatim>\<open>indexOf\<close> finds) and returns the text before it and the text after it.
\<close>

fun splitAtMatch :: "jsstring \<Rightarrow> jsstring \<Rightarrow> (jsstring \<times> jsstring) option" where
  "splitAtMatch pat [] = (if pat = [] then Some ([], []) else None)"
| "splitAtMatch pat (c # s) =
     (if take (length pat) (c # s) = pat then Some ([], drop (length pat) (c # s))
      else map_option (\<lambda>(preceding, following). (c # preceding, following)) (splitAtMatch pat s))"

definition contains :: "jsstring \<Rightarrow> jsstring \<Rightarrow> bool" where
  "contains s pat = (splitAtMatch pat s \<noteq> None)"

text \<open>
  The replacement text of \<^verbatim>\<open>replace\<close> is itself a pattern: \<^verbatim>\<open>$$\<close> stands for a
  dollar sign, \<^verbatim>\<open>$&\<close> for the matched text, \<^verbatim>\<open>$`\<close> for the text before the match
  and \<^verbatim>\<open>$'\<close> for the text after it. With a string as search value there are no
  capture groups, so every other use of the dollar sign is literal.
\<close>

fun getSubstitution :: "jsstring \<Rightarrow> jsstring \<Rightarrow> jsstring \<Rightarrow> jsstring \<Rightarrow> jsstring" where
  "getSubstitution matched preceding following [] = []"
| "getSubstitution matched preceding following [c] = [c]"
| "getSubstitution matched preceding following (c # d # r) =
     (if c = 0x24 \<and> d = 0x24 then 0x24 # getSubstitution matched preceding following r
      else if c = 0x24 \<and> d = 0x26 then matched @ getSubstitution matched preceding following r
      else if c = 0x24 \<and> d = 0x60 then preceding @ getSubstitution matched preceding following r
      else if c = 0x24 \<and> d = 0x27 then following @ getSubstitution matched preceding following r
      else c # getSubstitution matched preceding following (d # r))"

text \<open>
  \<^verbatim>\<open>s.replace(searchValue, replaceValue)\<close> with two strings: only the first occurrence
  is replaced, and a string without any occurrence is returned as it is.
\<close>

definition replace :: "jsstring \<Rightarrow> jsstring \<Rightarrow> jsstring \<Rightarrow> jsstring" where
  "replace s searchValue replaceValue =
     (case splitAtMatch searchValue s of
        None \<Rightarrow> s
      | Some (preceding, following) \<Rightarrow>
          preceding @ getSubstitution searchValue preceding following replaceValue @ following)"

section \<open>The prompts and the result document\<close>

definition QUESTION_PROMPT :: jsstring where
  "QUESTION_PROMPT = js ''Generate an interesting, open-ended question that could reveal thought patterns. The question should encourage detailed, thoughtful responses. Only respond with the question itself, nothing else. The question should be answerable with a single line''"

definition AI_ANSWER_PROMPT :: jsstring where
  "AI_ANSWER_PROMPT = js ''You are participating in a conversation. Answer the following question thoughtfully and naturally, as if you were having a real conversation: ''"

definition JUDGE_PROMPT :: jsstring where
  "JUDGE_PROMPT = js ''You are an AI judge analyzing two responses to the same question. One response is from a human and one is from an AI. \<newline>\<newline>Your task is to determine which is which and provide your analysis in markdown format using this structure:\<newline>\<newline># AI Judge's Analysis\<newline>\<newline>## Response Analysis\<newline>\<newline>### Response 1\<newline>\<newline>*Analysis:* [Your detailed analysis of why this seems human or AI]\<newline>\<newline>### Response 2\<newline>\<newline>*Analysis:* [Your detailed analysis of why this seems human or AI]\<newline>\<newline>## Verdict\<newline>[Your final determination of which response is human vs AI and a brief summary of key factors]''"

text \<open>
  The template literal of \<open>formatOutput\<close> holds both escaped and real line breaks, so
  three line feeds follow the title and each of the three answers.
\<close>

definition formatOutput :: "jsstring \<Rightarrow> jsstring \<Rightarrow> jsstring \<Rightarrow> jsstring \<Rightarrow> jsstring" where
  "formatOutput question userAnswer aiAnswer verdict =
     js ''# AI Turing Test Results\<newline>\<newline>\<newline>## The Question\<newline>'' @ question @
     js ''\<newline>\<newline>\<newline>## Human Response\<newline>'' @ userAnswer @
     js ''\<newline>\<newline>\<newline>## AI Response\<newline>'' @ aiAnswer @
     js ''\<newline>\<newline>\<newline>---\<newline>'' @ verdict"

section \<open>The component's state\<close>

datatype phase = Initial | Answering | Complete

text \<open>One field for each \<^verbatim>\<open>useState\<close> of the component \<open>AIJudge\<close>.\<close>

record session =
  currentState :: phase
  question :: jsstring
  userAnswer :: jsstring
  aiAnswer :: jsstring
  verdict :: jsstring
  isProcessing :: bool
  error :: jsstring

definition initialSession :: session where
  "initialSession =
     \<lparr>currentState = Initial, question = [], userAnswer = [], aiAnswer = [],
      verdict = [], isProcessing = False, error = []\<rparr>"

text \<open>
  What the text service does with one request: the chain \<^verbatim>\<open>generateContent\<close>,
  \<^verbatim>\<open>result.response\<close>, \<^verbatim>\<open>response.text()\<close> either throws or yields a text. The
  service is outside the program, so it is a parameter: its reply may depend on the
  prompt and on how many requests the running action has sent before.
\<close>

datatype reply = Fails | Text jsstring

type_synonym service = "nat \<Rightarrow> jsstring \<Rightarrow> reply"

text \<open>
  What a \<^verbatim>\<open>try\<close> block can catch: a failure of the service, or an \<^verbatim>\<open>Error\<close> that
  the component throws itself, with its message.
\<close>

datatype thrown = Rejected | Error jsstring

text \<open>
  A handler reads the state of the render it was created in and acts through the state
  setters, the service and the console. Its run is the sequence of these effects in
  program order; the setters' writes are committed to the state in that order.
\<close>

datatype event =
    SetCurrentState phase
  | SetQuestion jsstring
  | SetUserAnswer jsstring
  | SetAiAnswer jsstring
  | SetVerdict jsstring
  | SetIsProcessing bool
  | SetError jsstring
  | GenerateContent jsstring
  | ConsoleError jsstring thrown

fun perform :: "event \<Rightarrow> session \<Rightarrow> session" where
  "perform (SetCurrentState p) st = st\<lparr>currentState := p\<rparr>"
| "perform (SetQuestion t) st = st\<lparr>question := t\<rparr>"
| "perform (SetUserAnswer t) st = st\<lparr>userAnswer := t\<rparr>"
| "perform (SetAiAnswer t) st = st\<lparr>aiAnswer := t\<rparr>"
| "perform (SetVerdict t) st = st\<lparr>verdict := t\<rparr>"
| "perform (SetIsProcessing b) st = st\<lparr>isProcessing := b\<rparr>"
| "perform (SetError t) st = st\<lparr>error := t\<rparr>"
| "perform (GenerateContent p) st = st"
| "perform (ConsoleError t e) st = st"

definition commit :: "event list \<Rightarrow> session \<Rightarrow> session" where
  "commit evs st = fold perform evs st"

text \<open>The prompts sent to the service during a run, in order.\<close>

fun calls :: "event list \<Rightarrow> jsstring list" where
  "calls [] = []"
| "calls (GenerateContent p # evs) = p # calls evs"
| "calls (e # evs) = calls evs"

text \<open>The values written to \<open>isProcessing\<close> during a run, in order.\<close>

fun processingWrites :: "event list \<Rightarrow> bool list" where
  "processingWrites [] = []"
| "processingWrites (SetIsProcessing b # evs) = b # processingWrites evs"
| "processingWrites (e # evs) = processingWrites evs"

text \<open>
  \<open>callsWhileProcessing p evs\<close>: every request of the run is sent while the last value
  written to \<open>isProcessing\<close> is true (\<open>p\<close> is the value before the run).
\<close>

fun callsWhileProcessing :: "bool \<Rightarrow> event list \<Rightarrow> bool" where
  "callsWhileProcessing p [] = True"
| "callsWhileProcessing p (SetIsProcessing b # evs) = callsWhileProcessing b evs"
| "callsWhileProcessing p (GenerateContent q # evs) = (p \<and> callsWhileProcessing p evs)"
| "callsWhileProcessing p (e # evs) = callsWhileProcessing p evs"

section \<open>The handlers\<close>

text \<open>
  An asynchronous function that may throw: the effects it had, and either what it threw
  or what it returned.
\<close>

type_synonym 'a async = "event list \<times> (thrown + 'a)"

text \<open>
  The \<^verbatim>\<open>try\<close> block of \<open>generateQuestion\<close>: on success it returns the two writes that
  end the block.
\<close>

definition generateQuestion_try :: "service \<Rightarrow> session \<Rightarrow> (event list) async" where
  "generateQuestion_try svc st =
     ([GenerateContent QUESTION_PROMPT],
      case svc 0 QUESTION_PROMPT of
        Fails \<Rightarrow> Inl Rejected
      | Text questionText \<Rightarrow>
          if trim questionText = [] then Inl (Error (js ''Generated question was empty''))
          else Inr [SetQuestion questionText, SetCurrentState Answering])"

definition generateQuestion :: "service \<Rightarrow> session \<Rightarrow> event list" where
  "generateQuestion svc st =
     [SetIsProcessing True, SetError []] @
     (case generateQuestion_try svc st of
        (sent, Inr writes) \<Rightarrow> sent @ writes
      | (sent, Inl e) \<Rightarrow>
          sent @ [ConsoleError (js ''Error generating question:'') e,
                  SetError (js ''Failed to generate question. Please try again.'')]) @
     [SetIsProcessing False]"

text \<open>\<open>n\<close> counts the requests that the running action has sent before this one.\<close>

definition getAIAnswer :: "service \<Rightarrow> nat \<Rightarrow> session \<Rightarrow> jsstring async" where
  "getAIAnswer svc n st =
     (let prompt = AI_ANSWER_PROMPT @ question st in
      ([GenerateContent prompt],
       case svc n prompt of
         Fails \<Rightarrow> Inl Rejected
       | Text answerText \<Rightarrow>
           if trim answerText = [] then Inl (Error (js ''AI generated an empty response''))
           else Inr answerText))"

definition judgePrompt :: "session \<Rightarrow> jsstring" where
  "judgePrompt st =
     replace
       (replace
          (replace JUDGE_PROMPT (js ''{question}'') (question st))
          (js ''{humanResponse}'') (userAnswer st))
       (js ''{aiResponse}'') (aiAnswer st)"

definition getJudgement :: "service \<Rightarrow> nat \<Rightarrow> session \<Rightarrow> jsstring async" where
  "getJudgement svc n st =
     (let prompt = judgePrompt st in
      ([GenerateContent prompt],
       case svc n prompt of
         Fails \<Rightarrow> Inl Rejected
       | Text judgementText \<Rightarrow>
           if trim judgementText = [] then Inl (Error (js ''Judge generated an empty response''))
           else Inr judgementText))"

text \<open>
  \<open>getAIAnswer\<close> and \<open>getJudgement\<close> are the closures of the same render as
  \<open>handleSubmitAnswer\<close>: all three read the state \<open>st\<close> of that render, whatever the
  setters have been given since.
\<close>

definition handleSubmitAnswer :: "service \<Rightarrow> session \<Rightarrow> event list" where
  "handleSubmitAnswer svc st =
     (if trim (userAnswer st) = []
      then [SetError (js ''Please enter your answer before submitting.'')]
      else
        [SetIsProcessing True, SetError []] @
        (case getAIAnswer svc 0 st of
           (sent, Inl e) \<Rightarrow>
             sent @ [ConsoleError (js ''Error in process:'') e,
                     SetError (js ''An error occurred. Please try again.'')]
         | (sent, Inr aiResponseText) \<Rightarrow>
             sent @ [SetAiAnswer aiResponseText] @
             (case getJudgement svc 1 st of
                (sent', Inl e) \<Rightarrow>
                  sent' @ [ConsoleError (js ''Error in process:'') e,
                           SetError (js ''An error occurred. Please try again.'')]
              | (sent', Inr judgement) \<Rightarrow>
                  sent' @ [SetVerdict judgement, SetCurrentState Complete])) @
        [SetIsProcessing False])"

definition startNewTest :: "session \<Rightarrow> event list" where
  "startNewTest st =
     [SetCurrentState Initial, SetQuestion [], SetUserAnswer [], SetAiAnswer [],
      SetVerdict [], SetError []]"

section \<open>The rendered view\<close>

text \<open>
  Modelled from the spec: the component \<open>Button\<close> of \<^verbatim>\<open>./ui/button\<close>, which is not among
  the sources. The renderer invokes the callbacks on user action, and new trigger
  actions are ignored while \<open>isProcessing\<close> is true: a click on a \<open>Button\<close> runs its
  \<^verbatim>\<open>onClick\<close> handler, unless the \<open>Button\<close> was given a true \<^verbatim>\<open>disabled\<close>.
\<close>

definition Button :: "bool \<Rightarrow> event list \<Rightarrow> event list" where
  [simp]: "Button disabled onClick = (if disabled then [] else onClick)"

text \<open>
  What the user can do, and what the rendered elements make of it. Each phase renders its
  own controls; the Generate Question button, the Submit Answer button and the answer
  box carry \<^verbatim>\<open>disabled={isProcessing}\<close>, and a disabled \<^verbatim>\<open>textarea\<close> raises no
  change event. The Start New Test button has no such attribute.
\<close>

datatype action =
    ClickGenerateQuestion
  | ClickSubmitAnswer
  | ClickStartNewTest
  | ChangeAnswer jsstring

fun dispatch :: "service \<Rightarrow> action \<Rightarrow> session \<Rightarrow> event list" where
  "dispatch svc ClickGenerateQuestion st =
     (if currentState st = Initial then Button (isProcessing st) (generateQuestion svc st)
      else [])"
| "dispatch svc ClickSubmitAnswer st =
     (if currentState st = Answering then Button (isProcessing st) (handleSubmitAnswer svc st)
      else [])"
| "dispatch svc ClickStartNewTest st =
     (if currentState st = Complete then Button False (startNewTest st) else [])"
| "dispatch svc (ChangeAnswer v) st =
     (if currentState st = Answering \<and> \<not> isProcessing st then [SetUserAnswer v] else [])"

text \<open>The document handed to the markdown renderer in phase \<open>Complete\<close>.\<close>

definition document :: "session \<Rightarrow> jsstring" where
  "document st = formatOutput (question st) (userAnswer st) (aiAnswer st) (verdict st)"

section \<open>Observing runs\<close>

text \<open>The state variable that an effect writes, if it writes one.\<close>

fun writesField :: "event \<Rightarrow> string option" where
  "writesField (SetCurrentState p) = Some ''currentState''"
| "writesField (SetQuestion t) = Some ''question''"
| "writesField (SetUserAnswer t) = Some ''userAnswer''"
| "writesField (SetAiAnswer t) = Some ''aiAnswer''"
| "writesField (SetVerdict t) = Some ''verdict''"
| "writesField (SetIsProcessing b) = Some ''isProcessing''"
| "writesField (SetError t) = Some ''error''"
| "writesField (GenerateContent p) = None"
| "writesField (ConsoleError t e) = None"

definition writtenFields :: "event list \<Rightarrow> string set" where
  "writtenFields evs = set (List.map_filter writesField evs)"

text \<open>
  The sessions in which a run is suspended: at each request the handler awaits the
  reply, the writes made so far are committed and rendered, and the user can act.
\<close>

fun suspensions :: "event list \<Rightarrow> session \<Rightarrow> session list" where
  "suspensions [] st = []"
| "suspensions (GenerateContent p # evs) st = st # suspensions evs st"
| "suspensions (e # evs) st = suspensions evs (perform e st)"

text \<open>
  The question request fails when the service fails or when its text is blank.
\<close>

definition questionFails :: "service \<Rightarrow> bool" where
  "questionFails svc = (case svc 0 QUESTION_PROMPT of Fails \<Rightarrow> True | Text t \<Rightarrow> blank t)"

text \<open>
  The session after a sequence of user actions, each run to its end against the service
  it meets. The sessions the component can be in between two actions are those that
  \<open>runActions\<close> yields from the first render.
\<close>

fun runActions :: "(service \<times> action) list \<Rightarrow> session \<Rightarrow> session" where
  "runActions [] st = st"
| "runActions ((svc, a) # rest) st = runActions rest (commit (dispatch svc a st) st)"

subsection \<open>A test scenario\<close>

text \<open>
  A mock service that replies from a script, one entry for each request of an action,
  and the texts of one test: a question, the human's answer, the model's answer and the
  judge's verdict.
\<close>

definition scriptedService :: "reply list \<Rightarrow> service" where
  "scriptedService replies n prompt = (if n < length replies then replies ! n else Fails)"

definition scenarioQuestion :: jsstring where
  "scenarioQuestion = js ''What is your favorite memory?''"

definition scenarioHumanAnswer :: jsstring where
  "scenarioHumanAnswer = js ''My first bike ride.''"

definition scenarioAiAnswer :: jsstring where
  "scenarioAiAnswer = js ''A summer afternoon by the lake.''"

definition scenarioVerdict :: jsstring where
  "scenarioVerdict = js ''# AI Judge's Analysis\<newline>...Verdict: Response 1 is human.\<newline>''"

text \<open>The session in which the user has typed the answer and is about to submit it.\<close>

definition scenarioSession :: session where
  "scenarioSession =
     \<lparr>currentState = Answering, question = scenarioQuestion,
      userAnswer = scenarioHumanAnswer, aiAnswer = [], verdict = [],
      isProcessing = False, error = []\<rparr>"

definition scenarioActions :: "(service \<times> action) list" where
  "scenarioActions =
     [(scriptedService [Text scenarioQuestion], ClickGenerateQuestion),
      (scriptedService [], ChangeAnswer scenarioHumanAnswer),
      (scriptedService [Text scenarioAiAnswer, Text scenarioVerdict], ClickSubmitAnswer)]"

definition scenarioComplete :: session where
  "scenarioComplete = runActions scenarioActions initialSession"

section \<open>Basic facts\<close>

lemma commit_Nil: "commit [] st = st"
  by (simp add: commit_def)

lemma commit_Cons: "commit (e # evs) st = commit evs (perform e st)"
  by (simp add: commit_def)

lemma commit_append: "commit (xs @ ys) st = commit ys (commit xs st)"
  by (simp add: commit_def)

lemmas commit_simps = commit_Nil commit_Cons commit_append

text \<open>The test \<^verbatim>\<open>!s.trim()\<close> of the source holds exactly for the blank texts.\<close>

lemma trim_Nil_iff: "trim s = [] \<longleftrightarrow> blank s"
proof
  assume "trim s = []"
  then have all: "\<forall>c\<in>set (dropWhile isWhiteSpace s). isWhiteSpace c"
    by (simp add: trim_def)
  have "dropWhile isWhiteSpace s = []"
  proof (rule ccontr)
    assume ne: "dropWhile isWhiteSpace s \<noteq> []"
    then have "\<not> isWhiteSpace (hd (dropWhile isWhiteSpace s))"
      by (rule hd_dropWhile)
    moreover have "hd (dropWhile isWhiteSpace s) \<in> set (dropWhile isWhiteSpace s)"
      using ne by simp
    ultimately show False
      using all by blast
  qed
  then show "blank s"
    by (simp add: blank_def list_all_iff)
next
  assume "blank s"
  then show "trim s = []"
    by (auto simp: trim_def blank_def list_all_iff dest: set_dropWhileD)
qed

lemma not_blank_not_Nil: "\<not> blank s \<Longrightarrow> s \<noteq> []"
  by (auto simp: blank_def)

lemma js_Cons_not_Nil: "js (c # s) \<noteq> []"
  by (simp add: js_def)

subsection \<open>Searching the judge's template\<close>

lemma splitAtMatch_absent: "c \<notin> set s \<Longrightarrow> splitAtMatch (c # p) s = None"
  by (induction s) auto

lemma splitAtMatch_no_pair:
  "(a, b) \<notin> set (zip s (tl s)) \<Longrightarrow> splitAtMatch (a # b # p) s = None"
proof (induction s)
  case Nil
  then show ?case by simp
next
  case (Cons c s)
  then show ?case by (cases s) auto
qed

text \<open>
  The template holds no opening brace, no \<open>W\<close>, no \<open>M\<close>, and no \<open>A\<close> followed by a
  space.
\<close>

lemma JUDGE_PROMPT_lacks:
  "(0x7B :: code_unit) \<notin> set JUDGE_PROMPT"
  "(0x57 :: code_unit) \<notin> set JUDGE_PROMPT"
  "(0x4D :: code_unit) \<notin> set JUDGE_PROMPT"
  by (simp_all add: JUDGE_PROMPT_def js_def)

lemma JUDGE_PROMPT_lacks_pair:
  "(0x41 :: code_unit, 0x20) \<notin> set (zip JUDGE_PROMPT (tl JUDGE_PROMPT))"
  by (simp add: JUDGE_PROMPT_def js_def)

lemma replace_placeholder: "replace JUDGE_PROMPT (js (CHR ''{'' # p)) r = JUDGE_PROMPT"
  using splitAtMatch_absent [OF JUDGE_PROMPT_lacks(1)]
  by (simp add: replace_def js_def)

text \<open>None of the three placeholders occurs in the template, so nothing is replaced.\<close>

lemma judgePrompt_eq: "judgePrompt st = JUDGE_PROMPT"
  by (simp add: judgePrompt_def replace_placeholder)

subsection \<open>The runs of the handlers\<close>

lemma getAIAnswer_cases:
  "getAIAnswer svc n st =
     ([GenerateContent (AI_ANSWER_PROMPT @ question st)],
      case svc n (AI_ANSWER_PROMPT @ question st) of
        Fails \<Rightarrow> Inl Rejected
      | Text t \<Rightarrow>
          if blank t then Inl (Error (js ''AI generated an empty response'')) else Inr t)"
  by (simp add: getAIAnswer_def Let_def trim_Nil_iff split: reply.split)

lemma getJudgement_cases:
  "getJudgement svc n st =
     ([GenerateContent JUDGE_PROMPT],
      case svc n JUDGE_PROMPT of
        Fails \<Rightarrow> Inl Rejected
      | Text t \<Rightarrow>
          if blank t then Inl (Error (js ''Judge generated an empty response'')) else Inr t)"
  by (simp add: getJudgement_def Let_def judgePrompt_eq trim_Nil_iff split: reply.split)

lemma generateQuestion_cases:
  "generateQuestion svc st =
     (case svc 0 QUESTION_PROMPT of
        Fails \<Rightarrow>
          [SetIsProcessing True, SetError [], GenerateContent QUESTION_PROMPT,
           ConsoleError (js ''Error generating question:'') Rejected,
           SetError (js ''Failed to generate question. Please try again.''),
           SetIsProcessing False]
      | Text t \<Rightarrow>
          if blank t then
            [SetIsProcessing True, SetError [], GenerateContent QUESTION_PROMPT,
             ConsoleError (js ''Error generating question:'')
               (Error (js ''Generated question was empty'')),
             SetError (js ''Failed to generate question. Please try again.''),
             SetIsProcessing False]
          else
            [SetIsProcessing True, SetError [], GenerateContent QUESTION_PROMPT,
             SetQuestion t, SetCurrentState Answering, SetIsProcessing False])"
  by (simp add: generateQuestion_def generateQuestion_try_def trim_Nil_iff split: reply.split)

lemma generateQuestion_shapes:
  obtains (fails) e where "questionFails svc"
      "generateQuestion svc st =
         [SetIsProcessing True, SetError [], GenerateContent QUESTION_PROMPT,
          ConsoleError (js ''Error generating question:'') e,
          SetError (js ''Failed to generate question. Please try again.''),
          SetIsProcessing False]"
  | (succeeds) t where "\<not> blank t" "svc 0 QUESTION_PROMPT = Text t"
      "generateQuestion svc st =
         [SetIsProcessing True, SetError [], GenerateContent QUESTION_PROMPT,
          SetQuestion t, SetCurrentState Answering, SetIsProcessing False]"
  by (cases "svc 0 QUESTION_PROMPT") (auto simp: generateQuestion_cases questionFails_def)

lemma handleSubmitAnswer_blank:
  "blank (userAnswer st) \<Longrightarrow>
   handleSubmitAnswer svc st = [SetError (js ''Please enter your answer before submitting.'')]"
  by (simp add: handleSubmitAnswer_def trim_Nil_iff)

lemma handleSubmitAnswer_first_fails:
  "\<not> blank (userAnswer st) \<Longrightarrow> snd (getAIAnswer svc 0 st) = Inl e \<Longrightarrow>
   handleSubmitAnswer svc st =
     [SetIsProcessing True, SetError [], GenerateContent (AI_ANSWER_PROMPT @ question st),
      ConsoleError (js ''Error in process:'') e,
      SetError (js ''An error occurred. Please try again.''), SetIsProcessing False]"
  by (simp add: handleSubmitAnswer_def trim_Nil_iff getAIAnswer_cases)

lemma handleSubmitAnswer_second_fails:
  "\<not> blank (userAnswer st) \<Longrightarrow> snd (getAIAnswer svc 0 st) = Inr a \<Longrightarrow>
   snd (getJudgement svc 1 st) = Inl e \<Longrightarrow>
   handleSubmitAnswer svc st =
     [SetIsProcessing True, SetError [], GenerateContent (AI_ANSWER_PROMPT @ question st),
      SetAiAnswer a, GenerateContent JUDGE_PROMPT,
      ConsoleError (js ''Error in process:'') e,
      SetError (js ''An error occurred. Please try again.''), SetIsProcessing False]"
  by (simp add: handleSubmitAnswer_def trim_Nil_iff getAIAnswer_cases getJudgement_cases)

lemma handleSubmitAnswer_succeeds:
  "\<not> blank (userAnswer st) \<Longrightarrow> snd (getAIAnswer svc 0 st) = Inr a \<Longrightarrow>
   snd (getJudgement svc 1 st) = Inr v \<Longrightarrow>
   handleSubmitAnswer svc st =
     [SetIsProcessing True, SetError [], GenerateContent (AI_ANSWER_PROMPT @ question st),
      SetAiAnswer a, GenerateContent JUDGE_PROMPT,
      SetVerdict v, SetCurrentState Complete, SetIsProcessing False]"
  by (simp add: handleSubmitAnswer_def trim_Nil_iff getAIAnswer_cases getJudgement_cases)

text \<open>The four ways a submission can go.\<close>

lemma handleSubmitAnswer_shapes:
  obtains (blank) "blank (userAnswer st)"
      "handleSubmitAnswer svc st = [SetError (js ''Please enter your answer before submitting.'')]"
  | (first_fails) e where "\<not> blank (userAnswer st)"
      "handleSubmitAnswer svc st =
         [SetIsProcessing True, SetError [], GenerateContent (AI_ANSWER_PROMPT @ question st),
          ConsoleError (js ''Error in process:'') e,
          SetError (js ''An error occurred. Please try again.''), SetIsProcessing False]"
  | (second_fails) a e where "\<not> blank (userAnswer st)" "\<not> blank a"
      "handleSubmitAnswer svc st =
         [SetIsProcessing True, SetError [], GenerateContent (AI_ANSWER_PROMPT @ question st),
          SetAiAnswer a, GenerateContent JUDGE_PROMPT,
          ConsoleError (js ''Error in process:'') e,
          SetError (js ''An error occurred. Please try again.''), SetIsProcessing False]"
  | (succeeds) a v where "\<not> blank (userAnswer st)" "\<not> blank a" "\<not> blank v"
      "handleSubmitAnswer svc st =
         [SetIsProcessing True, SetError [], GenerateContent (AI_ANSWER_PROMPT @ question st),
          SetAiAnswer a, GenerateContent JUDGE_PROMPT,
          SetVerdict v, SetCurrentState Complete, SetIsProcessing False]"
proof (cases "blank (userAnswer st)")
  case True
  then show ?thesis
    using blank handleSubmitAnswer_blank by blast
next
  case nb: False
  show ?thesis
  proof (cases "snd (getAIAnswer svc 0 st)")
    case (Inl e)
    then show ?thesis
      using first_fails nb handleSubmitAnswer_first_fails by blast
  next
    case a: (Inr a)
    then have na: "\<not> blank a"
      by (auto simp: getAIAnswer_cases split: reply.splits if_splits)
    show ?thesis
    proof (cases "snd (getJudgement svc 1 st)")
      case (Inl e)
      then show ?thesis
        using second_fails nb na a handleSubmitAnswer_second_fails by blast
    next
      case v: (Inr v)
      then have "\<not> blank v"
        by (auto simp: getJudgement_cases split: reply.splits if_splits)
      then show ?thesis
        using succeeds nb na a v handleSubmitAnswer_succeeds by blast
    qed
  qed
qed

subsection \<open>Sessions between two actions\<close>

lemma dispatch_invariant:
  assumes "\<not> isProcessing st"
    and "currentState st \<noteq> Initial \<longrightarrow> \<not> blank (question st)"
    and "currentState st = Complete \<longrightarrow>
           \<not> blank (userAnswer st) \<and> \<not> blank (aiAnswer st) \<and> \<not> blank (verdict st)"
    and "st' = commit (dispatch svc a st) st"
  shows "\<not> isProcessing st' \<and>
         (currentState st' \<noteq> Initial \<longrightarrow> \<not> blank (question st')) \<and>
         (currentState st' = Complete \<longrightarrow>
            \<not> blank (userAnswer st') \<and> \<not> blank (aiAnswer st') \<and> \<not> blank (verdict st'))"
proof (cases a)
  case ClickGenerateQuestion
  then show ?thesis
    using assms
    by (cases rule: generateQuestion_shapes [of svc st]) (auto simp: commit_simps)
next
  case ClickSubmitAnswer
  then show ?thesis
    using assms
    by (cases rule: handleSubmitAnswer_shapes [of st svc]) (auto simp: commit_simps)
next
  case ClickStartNewTest
  then show ?thesis
    using assms by (auto simp: startNewTest_def commit_simps)
next
  case (ChangeAnswer v)
  then show ?thesis
    using assms by (auto simp: commit_simps)
qed

text \<open>
  Between two actions no request is in flight, a question is there from phase
  \<open>Answering\<close> on, and phase \<open>Complete\<close> has both answers and the verdict.
\<close>

lemma runActions_invariant:
  assumes "\<not> isProcessing st"
    and "currentState st \<noteq> Initial \<longrightarrow> \<not> blank (question st)"
    and "currentState st = Complete \<longrightarrow>
           \<not> blank (userAnswer st) \<and> \<not> blank (aiAnswer st) \<and> \<not> blank (verdict st)"
    and "st' = runActions acts st"
  shows "\<not> isProcessing st' \<and>
         (currentState st' \<noteq> Initial \<longrightarrow> \<not> blank (question st')) \<and>
         (currentState st' = Complete \<longrightarrow>
            \<not> blank (userAnswer st') \<and> \<not> blank (aiAnswer st') \<and> \<not> blank (verdict st'))"
  using assms
proof (induction acts arbitrary: st)
  case Nil
  then show ?case by simp
next
  case (Cons sa acts)
  obtain svc a where sa: "sa = (svc, a)"
    by (cases sa)
  have "\<not> isProcessing (commit (dispatch svc a st) st) \<and>
        (currentState (commit (dispatch svc a st) st) \<noteq> Initial \<longrightarrow>
           \<not> blank (question (commit (dispatch svc a st) st))) \<and>
        (currentState (commit (dispatch svc a st) st) = Complete \<longrightarrow>
           \<not> blank (userAnswer (commit (dispatch svc a st) st)) \<and>
           \<not> blank (aiAnswer (commit (dispatch svc a st) st)) \<and>
           \<not> blank (verdict (commit (dispatch svc a st) st)))"
    by (rule dispatch_invariant [OF Cons.prems(1-3) refl])
  moreover have "st' = runActions acts (commit (dispatch svc a st) st)"
    using Cons.prems(4) sa by simp
  ultimately show ?case
    using Cons.IH by blast
qed

lemma settled_invariant:
  assumes "st = runActions acts initialSession"
  shows "\<not> isProcessing st \<and>
         (currentState st \<noteq> Initial \<longrightarrow> \<not> blank (question st)) \<and>
         (currentState st = Complete \<longrightarrow>
            \<not> blank (userAnswer st) \<and> \<not> blank (aiAnswer st) \<and> \<not> blank (verdict st))"
  by (rule runActions_invariant [OF _ _ _ assms]) (simp_all add: initialSession_def)

text \<open>A control that is disabled while a request is in flight raises no event.\<close>

lemma disabled_controls_ignore:
  "isProcessing st \<Longrightarrow> a \<noteq> ClickStartNewTest \<Longrightarrow> dispatch svc a st = []"
  by (cases a) simp_all

lemma suspensions_dispatch:
  assumes "st' \<in> set (suspensions (dispatch svc a st) st)"
  shows "isProcessing st' \<and> currentState st' \<noteq> Complete"
proof (cases a)
  case ClickGenerateQuestion
  then show ?thesis
    using assms
    by (cases rule: generateQuestion_shapes [of svc st]) (auto split: if_splits)
next
  case ClickSubmitAnswer
  then show ?thesis
    using assms
    by (cases rule: handleSubmitAnswer_shapes [of st svc]) (auto split: if_splits)
next
  case ClickStartNewTest
  then show ?thesis
    using assms by (simp add: startNewTest_def split: if_splits)
next
  case (ChangeAnswer v)
  then show ?thesis
    using assms by (simp split: if_splits)
qed

subsection \<open>The scenario, evaluated\<close>

lemma scriptedService_simps:
  "scriptedService (r # rs) 0 p = r"
  "scriptedService [] n p = Fails"
  "scriptedService (r # rs) (Suc n) p = scriptedService rs n p"
  by (simp_all add: scriptedService_def)

lemma scenario_not_blank:
  "\<not> blank scenarioQuestion"
  "\<not> blank scenarioHumanAnswer"
  "\<not> blank scenarioAiAnswer"
  "\<not> blank scenarioVerdict"
  by (simp_all add: blank_def js_def isWhiteSpace_def scenarioQuestion_def
        scenarioHumanAnswer_def scenarioAiAnswer_def scenarioVerdict_def)

lemma scenario_blank: "blank (js '' \<newline>'')" "blank []"
  by (simp_all add: blank_def js_def isWhiteSpace_def)

lemma scenario_submission:
  "handleSubmitAnswer (scriptedService [Text scenarioAiAnswer, r]) scenarioSession =
     [SetIsProcessing True, SetError [], GenerateContent (AI_ANSWER_PROMPT @ scenarioQuestion),
      SetAiAnswer scenarioAiAnswer, GenerateContent JUDGE_PROMPT] @
     (case r of
        Fails \<Rightarrow>
          [ConsoleError (js ''Error in process:'') Rejected,
           SetError (js ''An error occurred. Please try again.'')]
      | Text v \<Rightarrow>
          if blank v then
            [ConsoleError (js ''Error in process:'')
               (Error (js ''Judge generated an empty response'')),
             SetError (js ''An error occurred. Please try again.'')]
          else [SetVerdict v, SetCurrentState Complete]) @
     [SetIsProcessing False]"
  by (simp add: handleSubmitAnswer_def trim_Nil_iff getAIAnswer_cases getJudgement_cases
        scriptedService_simps scenario_not_blank scenarioSession_def split: reply.split)

lemma scenarioComplete_eq:
  "scenarioComplete =
     \<lparr>currentState = Complete, question = scenarioQuestion,
      userAnswer = scenarioHumanAnswer, aiAnswer = scenarioAiAnswer,
      verdict = scenarioVerdict, isProcessing = False, error = []\<rparr>"
proof -
  have "commit (dispatch (scriptedService [Text scenarioQuestion]) ClickGenerateQuestion
          initialSession) initialSession =
        initialSession\<lparr>currentState := Answering, question := scenarioQuestion\<rparr>"
    by (simp add: generateQuestion_cases scriptedService_simps scenario_not_blank
          commit_simps initialSession_def)
  moreover have "commit (dispatch (scriptedService []) (ChangeAnswer scenarioHumanAnswer)
          (initialSession\<lparr>currentState := Answering, question := scenarioQuestion\<rparr>))
          (initialSession\<lparr>currentState := Answering, question := scenarioQuestion\<rparr>) =
        scenarioSession"
    by (simp add: commit_simps initialSession_def scenarioSession_def)
  moreover have "commit (dispatch (scriptedService [Text scenarioAiAnswer, Text scenarioVerdict])
          ClickSubmitAnswer scenarioSession) scenarioSession =
        scenarioSession\<lparr>currentState := Complete, aiAnswer := scenarioAiAnswer,
          verdict := scenarioVerdict\<rparr>"
  proof -
    have "currentState scenarioSession = Answering" "\<not> isProcessing scenarioSession"
      by (simp_all add: scenarioSession_def)
    then show ?thesis
      by (simp add: scenario_submission scenario_not_blank commit_simps)
        (simp add: scenarioSession_def)
  qed
  ultimately show ?thesis
    by (simp add: scenarioComplete_def scenarioActions_def scenarioSession_def)
qed

section \<open>The claims\<close>

text \<open>
  Claim C1: the prompt sent to the text service by the judgement step is the judge
  template with the session's question, human answer and AI answer substituted into it,
  the human answer first. The template of the source holds none of the placeholders
  that \<open>getJudgement\<close> replaces, so the prompt sent is the bare template: in the test
  scenario, with all three texts present in the session, the judge's request is
  \<open>JUDGE_PROMPT\<close> itself, and neither the question nor any of the two answers occurs
  in it.
\<close>

theorem judge_prompt_omits_session_texts:
  "fst (getJudgement (scriptedService [Text scenarioAiAnswer, Text scenarioVerdict]) 1
          (scenarioSession\<lparr>aiAnswer := scenarioAiAnswer\<rparr>)) =
     [GenerateContent JUDGE_PROMPT] \<and>
   calls (handleSubmitAnswer (scriptedService [Text scenarioAiAnswer, Text scenarioVerdict])
            scenarioSession) =
     [AI_ANSWER_PROMPT @ scenarioQuestion, JUDGE_PROMPT] \<and>
   \<not> contains JUDGE_PROMPT scenarioQuestion \<and>
   \<not> contains JUDGE_PROMPT scenarioHumanAnswer \<and>
   \<not> contains JUDGE_PROMPT scenarioAiAnswer"
proof -
  have "splitAtMatch scenarioQuestion JUDGE_PROMPT = None"
    using splitAtMatch_absent [OF JUDGE_PROMPT_lacks(2)]
    by (simp add: scenarioQuestion_def js_def)
  moreover have "splitAtMatch scenarioHumanAnswer JUDGE_PROMPT = None"
    using splitAtMatch_absent [OF JUDGE_PROMPT_lacks(3)]
    by (simp add: scenarioHumanAnswer_def js_def)
  moreover have "splitAtMatch scenarioAiAnswer JUDGE_PROMPT = None"
    using splitAtMatch_no_pair [OF JUDGE_PROMPT_lacks_pair]
    by (simp add: scenarioAiAnswer_def js_def)
  ultimately show ?thesis
    by (simp add: contains_def getJudgement_cases scenario_submission scenario_not_blank)
qed

text \<open>
  Claim C2, as amended: when a non-blank answer is submitted in phase \<open>Answering\<close>, the
  AI-answer request succeeds and the judge request fails, the session stays in phase
  \<open>Answering\<close>, the error message is set, \<open>isProcessing\<close> ends false and the verdict
  is untouched; the text of the first request is kept in \<open>aiAnswer\<close>, since
  \<open>setAiAnswer\<close> is called before the judge request and nothing ever takes it back.
\<close>

theorem judge_failure_keeps_aiAnswer:
  assumes "currentState st = Answering" and "\<not> blank (userAnswer st)"
    and "snd (getAIAnswer svc 0 st) = Inr a" and "snd (getJudgement svc 1 st) = Inl e"
  shows "commit (handleSubmitAnswer svc st) st =
           st\<lparr>aiAnswer := a, isProcessing := False,
              error := js ''An error occurred. Please try again.''\<rparr> \<and>
         currentState (commit (handleSubmitAnswer svc st) st) = Answering \<and>
         error (commit (handleSubmitAnswer svc st) st) \<noteq> [] \<and>
         \<not> isProcessing (commit (handleSubmitAnswer svc st) st) \<and>
         aiAnswer (commit (handleSubmitAnswer svc st) st) = a \<and>
         verdict (commit (handleSubmitAnswer svc st) st) = verdict st"
  using assms
  by (simp add: handleSubmitAnswer_second_fails commit_simps js_Cons_not_Nil)

theorem judge_failure_keeps_aiAnswer_witness:
  "currentState scenarioSession = Answering \<and> \<not> blank (userAnswer scenarioSession) \<and>
   snd (getAIAnswer (scriptedService [Text scenarioAiAnswer, Text []]) 0 scenarioSession) =
     Inr scenarioAiAnswer \<and>
   snd (getJudgement (scriptedService [Text scenarioAiAnswer, Text []]) 1 scenarioSession) =
     Inl (Error (js ''Judge generated an empty response'')) \<and>
   commit (handleSubmitAnswer (scriptedService [Text scenarioAiAnswer, Text []])
     scenarioSession) scenarioSession =
     scenarioSession\<lparr>aiAnswer := scenarioAiAnswer, isProcessing := False,
       error := js ''An error occurred. Please try again.''\<rparr>"
proof -
  have h: "currentState scenarioSession = Answering" "\<not> blank (userAnswer scenarioSession)"
    "snd (getAIAnswer (scriptedService [Text scenarioAiAnswer, Text []]) 0 scenarioSession) =
       Inr scenarioAiAnswer"
    "snd (getJudgement (scriptedService [Text scenarioAiAnswer, Text []]) 1 scenarioSession) =
       Inl (Error (js ''Judge generated an empty response''))"
    by (simp_all add: getAIAnswer_cases getJudgement_cases scriptedService_simps
          scenario_not_blank scenario_blank scenarioSession_def)
  show ?thesis
    using h judge_failure_keeps_aiAnswer [OF h] by simp
qed

text \<open>
  Claim C2 as stated fails: in the test scenario the first request returns the AI's
  answer and the judge request fails; afterwards the session's \<open>aiAnswer\<close>, empty
  before, holds the text of the first request.
\<close>

theorem aiAnswer_not_discarded:
  "currentState scenarioSession = Answering \<and> userAnswer scenarioSession \<noteq> [] \<and>
   aiAnswer scenarioSession = [] \<and>
   snd (getAIAnswer (scriptedService [Text scenarioAiAnswer, Fails]) 0 scenarioSession) =
     Inr scenarioAiAnswer \<and>
   snd (getJudgement (scriptedService [Text scenarioAiAnswer, Fails]) 1 scenarioSession) =
     Inl Rejected \<and>
   scenarioAiAnswer \<noteq> [] \<and>
   aiAnswer (commit (handleSubmitAnswer (scriptedService [Text scenarioAiAnswer, Fails])
     scenarioSession) scenarioSession) = scenarioAiAnswer"
proof -
  have "scenarioAiAnswer \<noteq> []" "scenarioHumanAnswer \<noteq> []"
    using scenario_not_blank by (simp_all add: not_blank_not_Nil)
  then show ?thesis
    by (simp add: scenario_submission commit_simps getAIAnswer_cases getJudgement_cases
          scriptedService_simps scenario_not_blank)
      (simp add: scenarioSession_def)
qed

text \<open>
  Claim C3: in every session with \<open>isProcessing\<close> true, a trigger action has no effect:
  no request is sent and no field of the session changes. The sessions the component
  can be in are those between two actions and those in which a run started by a user
  action is suspended on a request. For each of them with \<open>isProcessing\<close> true, every
  user action (generating a question, submitting an answer, starting a new test,
  editing the answer) raises no event. Generating a question, submitting an answer and
  editing the answer raise no event in any session at all that has \<open>isProcessing\<close>
  true. The flag is true in every suspended session (\<open>suspensions_dispatch\<close>) and in
  no session between two actions (\<open>settled_invariant\<close>).
\<close>

theorem actions_ignored_while_processing:
  assumes "isProcessing st'"
    and "st' = runActions acts initialSession \<or>
         st' \<in> set (suspensions (dispatch svc a st) st) \<or>
         a' \<noteq> ClickStartNewTest"
  shows "dispatch svc' a' st' = [] \<and> calls (dispatch svc' a' st') = [] \<and>
         commit (dispatch svc' a' st') st' = st'"
proof -
  have "currentState st' \<noteq> Complete \<or> a' \<noteq> ClickStartNewTest"
    using assms(2)
  proof (elim disjE)
    assume "st' = runActions acts initialSession"
    then have "\<not> isProcessing st'"
      using settled_invariant by blast
    then show ?thesis
      using assms(1) by simp
  next
    assume "st' \<in> set (suspensions (dispatch svc a st) st)"
    then show ?thesis
      using suspensions_dispatch by blast
  next
    assume "a' \<noteq> ClickStartNewTest"
    then show ?thesis
      by simp
  qed
  then have "dispatch svc' a' st' = []"
    using assms(1) by (cases a') auto
  then show ?thesis
    by (simp add: commit_simps)
qed

theorem actions_ignored_while_processing_witness:
  "isProcessing (scenarioSession\<lparr>isProcessing := True\<rparr>) \<and>
   scenarioSession\<lparr>isProcessing := True\<rparr> \<in>
     set (suspensions (dispatch (scriptedService [Text scenarioAiAnswer, Text scenarioVerdict])
            ClickSubmitAnswer scenarioSession) scenarioSession) \<and>
   dispatch (scriptedService []) ClickStartNewTest (scenarioSession\<lparr>isProcessing := True\<rparr>) =
     [] \<and>
   dispatch (scriptedService [Text scenarioAiAnswer, Text scenarioVerdict]) ClickSubmitAnswer
     (scenarioSession\<lparr>isProcessing := True\<rparr>) = [] \<and>
   calls (dispatch (scriptedService [Text scenarioAiAnswer, Text scenarioVerdict])
     ClickSubmitAnswer (scenarioSession\<lparr>isProcessing := True\<rparr>)) = [] \<and>
   commit (dispatch (scriptedService [Text scenarioAiAnswer, Text scenarioVerdict])
     ClickSubmitAnswer (scenarioSession\<lparr>isProcessing := True\<rparr>))
     (scenarioSession\<lparr>isProcessing := True\<rparr>) = scenarioSession\<lparr>isProcessing := True\<rparr>"
proof -
  have p: "isProcessing (scenarioSession\<lparr>isProcessing := True\<rparr>)"
    by simp
  have "currentState scenarioSession = Answering" "\<not> isProcessing scenarioSession"
    "error scenarioSession = []"
    by (simp_all add: scenarioSession_def)
  then have h: "scenarioSession\<lparr>isProcessing := True\<rparr> \<in>
     set (suspensions (dispatch (scriptedService [Text scenarioAiAnswer, Text scenarioVerdict])
            ClickSubmitAnswer scenarioSession) scenarioSession)"
    by (simp add: scenario_submission scenario_not_blank)
  have g: "ClickSubmitAnswer \<noteq> ClickStartNewTest"
    by simp
  show ?thesis
    using p h
      actions_ignored_while_processing [OF p disjI2 [OF disjI1 [OF h]],
        of "scriptedService []" ClickStartNewTest]
      actions_ignored_while_processing [OF p disjI2 [OF disjI2 [OF g]],
        of "scriptedService [Text scenarioAiAnswer, Text scenarioVerdict]"]
    by (simp add: commit_simps)
qed

text \<open>
  Claim C4: starting a new test from phase \<open>Complete\<close> resets the phase to \<open>Initial\<close>
  and the question, both answers, the verdict and the error message to the empty text
  of the first render: the result is the initial session in every field that
  \<open>startNewTest\<close> writes, and it is the initial session outright for every session the
  component can be in between two actions, that is, after any sequence of actions from
  the first render.
\<close>

theorem startNewTest_resets:
  assumes "currentState st = Complete"
  shows "commit (startNewTest st) st = initialSession\<lparr>isProcessing := isProcessing st\<rparr> \<and>
         (st = runActions acts initialSession \<longrightarrow>
            commit (dispatch svc ClickStartNewTest st) st = initialSession)"
  using assms settled_invariant [of st acts]
  by (auto simp: startNewTest_def commit_simps initialSession_def)

theorem startNewTest_resets_witness:
  "currentState scenarioComplete = Complete \<and>
   scenarioComplete = runActions scenarioActions initialSession \<and>
   commit (startNewTest scenarioComplete) scenarioComplete = initialSession \<and>
   commit (dispatch (scriptedService []) ClickStartNewTest scenarioComplete) scenarioComplete =
     initialSession"
proof -
  have h: "currentState scenarioComplete = Complete"
    by (simp add: scenarioComplete_eq)
  have p: "isProcessing scenarioComplete = False"
    by (simp add: scenarioComplete_eq)
  have "initialSession\<lparr>isProcessing := False\<rparr> = initialSession"
    by (simp add: initialSession_def)
  then show ?thesis
    using h p scenarioComplete_def
      startNewTest_resets [OF h, of scenarioActions "scriptedService []"]
    by simp
qed

text \<open>
  Claim C5: every run of an action that sends a request, that is, every run of
  \<open>generateQuestion\<close> and every run of \<open>handleSubmitAnswer\<close> on a non-blank answer,
  sends at least one request, begins by setting \<open>isProcessing\<close> to true and ends by
  setting it to false, whether the requests succeed or fail; these are its only writes
  to the flag, so every request is sent while the flag is true, and the flag is false
  when the run is over.
\<close>

theorem isProcessing_brackets_requests:
  assumes "evs = generateQuestion svc st \<or>
           (evs = handleSubmitAnswer svc st \<and> \<not> blank (userAnswer st))"
  shows "calls evs \<noteq> [] \<and>
         hd evs = SetIsProcessing True \<and> last evs = SetIsProcessing False \<and>
         processingWrites evs = [True, False] \<and> callsWhileProcessing p evs \<and>
         \<not> isProcessing (commit evs st)"
  using assms
proof
  assume "evs = generateQuestion svc st"
  then show ?thesis
    by (cases rule: generateQuestion_shapes [of svc st]) (simp_all add: commit_simps)
next
  assume "evs = handleSubmitAnswer svc st \<and> \<not> blank (userAnswer st)"
  then show ?thesis
    by (cases rule: handleSubmitAnswer_shapes [of st svc]) (simp_all add: commit_simps)
qed

theorem isProcessing_brackets_requests_witness:
  "calls (generateQuestion (scriptedService [Text scenarioQuestion]) initialSession) =
     [QUESTION_PROMPT] \<and>
   hd (generateQuestion (scriptedService [Text scenarioQuestion]) initialSession) =
     SetIsProcessing True \<and>
   last (generateQuestion (scriptedService [Text scenarioQuestion]) initialSession) =
     SetIsProcessing False \<and>
   processingWrites (generateQuestion (scriptedService [Text scenarioQuestion]) initialSession) =
     [True, False] \<and>
   callsWhileProcessing False
     (generateQuestion (scriptedService [Text scenarioQuestion]) initialSession) \<and>
   \<not> isProcessing
     (commit (generateQuestion (scriptedService [Text scenarioQuestion]) initialSession)
        initialSession) \<and>
   \<not> blank (userAnswer scenarioSession) \<and>
   calls (handleSubmitAnswer (scriptedService [Text scenarioAiAnswer, Fails]) scenarioSession) =
     [AI_ANSWER_PROMPT @ scenarioQuestion, JUDGE_PROMPT] \<and>
   hd (handleSubmitAnswer (scriptedService [Text scenarioAiAnswer, Fails]) scenarioSession) =
     SetIsProcessing True \<and>
   last (handleSubmitAnswer (scriptedService [Text scenarioAiAnswer, Fails]) scenarioSession) =
     SetIsProcessing False \<and>
   processingWrites
     (handleSubmitAnswer (scriptedService [Text scenarioAiAnswer, Fails]) scenarioSession) =
     [True, False] \<and>
   callsWhileProcessing False
     (handleSubmitAnswer (scriptedService [Text scenarioAiAnswer, Fails]) scenarioSession) \<and>
   \<not> isProcessing
     (commit (handleSubmitAnswer (scriptedService [Text scenarioAiAnswer, Fails])
        scenarioSession) scenarioSession)"
proof -
  have q: "calls (generateQuestion (scriptedService [Text scenarioQuestion]) initialSession) =
             [QUESTION_PROMPT]"
    by (simp add: generateQuestion_cases scriptedService_simps scenario_not_blank)
  have b: "\<not> blank (userAnswer scenarioSession)"
    by (simp add: scenarioSession_def scenario_not_blank)
  have c: "calls (handleSubmitAnswer (scriptedService [Text scenarioAiAnswer, Fails])
             scenarioSession) = [AI_ANSWER_PROMPT @ scenarioQuestion, JUDGE_PROMPT]"
    by (simp add: scenario_submission)
  show ?thesis
    using q b c
      isProcessing_brackets_requests [OF disjI1 [OF refl],
        of "scriptedService [Text scenarioQuestion]" initialSession False]
      isProcessing_brackets_requests [OF disjI2 [OF conjI [OF refl b]],
        of "scriptedService [Text scenarioAiAnswer, Fails]" False]
    by simp
qed

text \<open>
  Claim C6: a blank completion (empty, or white space only) makes each of the three
  generation steps fail with the error that reports the empty text, and no run stores
  a blank text as question, AI answer or verdict; when the reply to the question
  prompt is blank, the phase is unchanged (so it remains \<open>Initial\<close>), the error
  message ends non-empty and \<open>isProcessing\<close> ends false.
\<close>

theorem blank_completion_rejected:
  assumes "blank t"
  shows "(svc 0 QUESTION_PROMPT = Text t \<longrightarrow>
            snd (generateQuestion_try svc st) =
              Inl (Error (js ''Generated question was empty'')) \<and>
            currentState (commit (generateQuestion svc st) st) = currentState st \<and>
            question (commit (generateQuestion svc st) st) = question st \<and>
            error (commit (generateQuestion svc st) st) \<noteq> [] \<and>
            \<not> isProcessing (commit (generateQuestion svc st) st)) \<and>
         (svc n (AI_ANSWER_PROMPT @ question st) = Text t \<longrightarrow>
            snd (getAIAnswer svc n st) =
              Inl (Error (js ''AI generated an empty response''))) \<and>
         (svc m (judgePrompt st) = Text t \<longrightarrow>
            snd (getJudgement svc m st) =
              Inl (Error (js ''Judge generated an empty response''))) \<and>
         SetQuestion t \<notin> set (generateQuestion svc st) \<and>
         SetAiAnswer t \<notin> set (handleSubmitAnswer svc st) \<and>
         SetVerdict t \<notin> set (handleSubmitAnswer svc st)"
proof -
  have q: "SetQuestion t \<notin> set (generateQuestion svc st)"
    using assms by (cases rule: generateQuestion_shapes [of svc st]) auto
  have a: "SetAiAnswer t \<notin> set (handleSubmitAnswer svc st)"
    using assms by (cases rule: handleSubmitAnswer_shapes [of st svc]) auto
  have v: "SetVerdict t \<notin> set (handleSubmitAnswer svc st)"
    using assms by (cases rule: handleSubmitAnswer_shapes [of st svc]) auto
  have g: "snd (generateQuestion_try svc st) =
              Inl (Error (js ''Generated question was empty'')) \<and>
            currentState (commit (generateQuestion svc st) st) = currentState st \<and>
            question (commit (generateQuestion svc st) st) = question st \<and>
            error (commit (generateQuestion svc st) st) \<noteq> [] \<and>
            \<not> isProcessing (commit (generateQuestion svc st) st)"
    if "svc 0 QUESTION_PROMPT = Text t"
    using assms that
    by (simp add: generateQuestion_try_def generateQuestion_cases trim_Nil_iff commit_simps
          js_Cons_not_Nil)
  have ga: "snd (getAIAnswer svc n st) = Inl (Error (js ''AI generated an empty response''))"
    if "svc n (AI_ANSWER_PROMPT @ question st) = Text t"
    using assms that by (simp add: getAIAnswer_cases)
  have gj: "snd (getJudgement svc m st) = Inl (Error (js ''Judge generated an empty response''))"
    if "svc m (judgePrompt st) = Text t"
    using assms that by (simp add: getJudgement_cases judgePrompt_eq)
  show ?thesis
    using q a v g ga gj by blast
qed

theorem blank_completion_rejected_witness:
  "blank (js '' \<newline>'') \<and>
   scriptedService [Text (js '' \<newline>''), Text (js '' \<newline>'')] 0 QUESTION_PROMPT =
     Text (js '' \<newline>'') \<and>
   snd (generateQuestion_try (scriptedService [Text (js '' \<newline>''), Text (js '' \<newline>'')])
          initialSession) =
     Inl (Error (js ''Generated question was empty'')) \<and>
   currentState (commit (generateQuestion
       (scriptedService [Text (js '' \<newline>''), Text (js '' \<newline>'')]) initialSession)
       initialSession) = Initial \<and>
   error (commit (generateQuestion
       (scriptedService [Text (js '' \<newline>''), Text (js '' \<newline>'')]) initialSession)
       initialSession) \<noteq> [] \<and>
   \<not> isProcessing (commit (generateQuestion
       (scriptedService [Text (js '' \<newline>''), Text (js '' \<newline>'')]) initialSession)
       initialSession) \<and>
   snd (getAIAnswer (scriptedService [Text (js '' \<newline>''), Text (js '' \<newline>'')]) 0
          initialSession) =
     Inl (Error (js ''AI generated an empty response'')) \<and>
   snd (getJudgement (scriptedService [Text (js '' \<newline>''), Text (js '' \<newline>'')]) 1
          initialSession) =
     Inl (Error (js ''Judge generated an empty response''))"
proof -
  have b: "blank (js '' \<newline>'')"
    by (rule scenario_blank)
  have s: "scriptedService [Text (js '' \<newline>''), Text (js '' \<newline>'')] 0 p =
             Text (js '' \<newline>'')"
    "scriptedService [Text (js '' \<newline>''), Text (js '' \<newline>'')] 1 p =
             Text (js '' \<newline>'')" for p
    by (simp_all add: scriptedService_simps)
  have i: "currentState initialSession = Initial"
    by (simp add: initialSession_def)
  show ?thesis
    using b s i
      blank_completion_rejected [OF b,
        of "scriptedService [Text (js '' \<newline>''), Text (js '' \<newline>'')]" initialSession 0 1]
    by simp
qed

text \<open>
  Claim C7: submitting an empty or white-space-only answer in phase \<open>Answering\<close> sends
  no request, sets the error message and leaves the phase \<open>Answering\<close>.
\<close>

theorem blank_answer_rejected:
  assumes "currentState st = Answering" and "blank (userAnswer st)"
  shows "calls (handleSubmitAnswer svc st) = [] \<and>
         error (commit (handleSubmitAnswer svc st) st) =
           js ''Please enter your answer before submitting.'' \<and>
         error (commit (handleSubmitAnswer svc st) st) \<noteq> [] \<and>
         currentState (commit (handleSubmitAnswer svc st) st) = Answering"
  using assms
  by (simp add: handleSubmitAnswer_blank commit_simps js_Cons_not_Nil)

theorem blank_answer_rejected_witness:
  "currentState (scenarioSession\<lparr>userAnswer := js '' \<newline>''\<rparr>) = Answering \<and>
   blank (userAnswer (scenarioSession\<lparr>userAnswer := js '' \<newline>''\<rparr>)) \<and>
   calls (handleSubmitAnswer (scriptedService [Text scenarioAiAnswer, Text scenarioVerdict])
     (scenarioSession\<lparr>userAnswer := js '' \<newline>''\<rparr>)) = [] \<and>
   error (commit (handleSubmitAnswer
       (scriptedService [Text scenarioAiAnswer, Text scenarioVerdict])
       (scenarioSession\<lparr>userAnswer := js '' \<newline>''\<rparr>))
     (scenarioSession\<lparr>userAnswer := js '' \<newline>''\<rparr>)) \<noteq> [] \<and>
   currentState (commit (handleSubmitAnswer
       (scriptedService [Text scenarioAiAnswer, Text scenarioVerdict])
       (scenarioSession\<lparr>userAnswer := js '' \<newline>''\<rparr>))
     (scenarioSession\<lparr>userAnswer := js '' \<newline>''\<rparr>)) = Answering"
proof -
  have h: "currentState (scenarioSession\<lparr>userAnswer := js '' \<newline>''\<rparr>) = Answering"
    "blank (userAnswer (scenarioSession\<lparr>userAnswer := js '' \<newline>''\<rparr>))"
    by (simp_all add: scenarioSession_def scenario_blank)
  show ?thesis
    using h blank_answer_rejected [OF h,
        of "scriptedService [Text scenarioAiAnswer, Text scenarioVerdict]"]
    by (simp add: js_Cons_not_Nil)
qed

text \<open>
  Claim C8: for every session that reaches phase \<open>Complete\<close>, by whatever sequence of
  user actions from the first render and whatever the service replied, the document
  given to the renderer is, in this order, the title heading, the question under its
  heading, the human's answer under its heading, the AI's answer under its heading, a
  separator line and the verdict; and none of the four texts is empty.
\<close>

theorem complete_document:
  assumes "st = runActions acts initialSession" and "currentState st = Complete"
  shows "document st =
           js ''# AI Turing Test Results\<newline>\<newline>\<newline>## The Question\<newline>'' @ question st @
           js ''\<newline>\<newline>\<newline>## Human Response\<newline>'' @ userAnswer st @
           js ''\<newline>\<newline>\<newline>## AI Response\<newline>'' @ aiAnswer st @
           js ''\<newline>\<newline>\<newline>---\<newline>'' @ verdict st \<and>
         question st \<noteq> [] \<and> userAnswer st \<noteq> [] \<and> aiAnswer st \<noteq> [] \<and> verdict st \<noteq> []"
  using settled_invariant [OF assms(1)] assms(2)
  by (simp add: document_def formatOutput_def not_blank_not_Nil)

theorem complete_document_witness:
  "scenarioComplete = runActions scenarioActions initialSession \<and>
   currentState scenarioComplete = Complete \<and>
   document scenarioComplete =
     js ''# AI Turing Test Results\<newline>\<newline>\<newline>## The Question\<newline>'' @ scenarioQuestion @
     js ''\<newline>\<newline>\<newline>## Human Response\<newline>'' @ scenarioHumanAnswer @
     js ''\<newline>\<newline>\<newline>## AI Response\<newline>'' @ scenarioAiAnswer @
     js ''\<newline>\<newline>\<newline>---\<newline>'' @ scenarioVerdict \<and>
   question scenarioComplete \<noteq> [] \<and> userAnswer scenarioComplete \<noteq> [] \<and>
   aiAnswer scenarioComplete \<noteq> [] \<and> verdict scenarioComplete \<noteq> []"
proof -
  have h: "currentState scenarioComplete = Complete"
    by (simp add: scenarioComplete_eq)
  have f: "question scenarioComplete = scenarioQuestion"
    "userAnswer scenarioComplete = scenarioHumanAnswer"
    "aiAnswer scenarioComplete = scenarioAiAnswer"
    "verdict scenarioComplete = scenarioVerdict"
    by (simp_all add: scenarioComplete_eq)
  show ?thesis
    using h scenarioComplete_def complete_document [OF scenarioComplete_def h]
    by (simp only: f) simp
qed

text \<open>
  Claim C9: when the question request fails, by a failure of the service or by a blank
  completion, \<open>generateQuestion\<close> leaves the question, both answers and the verdict as
  they were; the only state variables it writes are \<open>error\<close> and \<open>isProcessing\<close>.
\<close>

theorem failed_generateQuestion_frame:
  assumes "questionFails svc"
  shows "question (commit (generateQuestion svc st) st) = question st \<and>
         userAnswer (commit (generateQuestion svc st) st) = userAnswer st \<and>
         aiAnswer (commit (generateQuestion svc st) st) = aiAnswer st \<and>
         verdict (commit (generateQuestion svc st) st) = verdict st \<and>
         writtenFields (generateQuestion svc st) = {''error'', ''isProcessing''}"
  using assms
  by (auto simp: questionFails_def generateQuestion_cases commit_simps writtenFields_def
        List.map_filter_simps split: reply.splits)

theorem failed_generateQuestion_frame_witness:
  "questionFails (scriptedService []) \<and>
   question (commit (generateQuestion (scriptedService []) scenarioComplete) scenarioComplete) =
     scenarioQuestion \<and>
   userAnswer (commit (generateQuestion (scriptedService []) scenarioComplete) scenarioComplete) =
     scenarioHumanAnswer \<and>
   aiAnswer (commit (generateQuestion (scriptedService []) scenarioComplete) scenarioComplete) =
     scenarioAiAnswer \<and>
   verdict (commit (generateQuestion (scriptedService []) scenarioComplete) scenarioComplete) =
     scenarioVerdict \<and>
   writtenFields (generateQuestion (scriptedService []) scenarioComplete) =
     {''error'', ''isProcessing''}"
proof -
  have h: "questionFails (scriptedService [])"
    by (simp add: questionFails_def scriptedService_simps)
  have f: "question scenarioComplete = scenarioQuestion"
    "userAnswer scenarioComplete = scenarioHumanAnswer"
    "aiAnswer scenarioComplete = scenarioAiAnswer"
    "verdict scenarioComplete = scenarioVerdict"
    by (simp_all add: scenarioComplete_eq)
  show ?thesis
    using h f failed_generateQuestion_frame [OF h, of scenarioComplete] by simp
qed

text \<open>
  Claim C10: \<open>startNewTest\<close> never writes \<open>isProcessing\<close>: the flag after the reset is
  the flag before it, and the state variables written are the six others.
\<close>

theorem startNewTest_keeps_isProcessing:
  "isProcessing (commit (startNewTest st) st) = isProcessing st \<and>
   processingWrites (startNewTest st) = [] \<and>
   writtenFields (startNewTest st) =
     {''currentState'', ''question'', ''userAnswer'', ''aiAnswer'', ''verdict'', ''error''}"
  by (auto simp: startNewTest_def commit_simps writtenFields_def List.map_filter_simps)

end
